theory Spec2Isabelle
  imports Complex_Main "HOL-Library.Sublist" "HOL-Library.AList"
begin

section \<open>Python values\<close>

subsection \<open>Strings\<close>

text \<open>
  A Python \<open>str\<close> is modelled as a \<^typ>\<open>string\<close> holding its UTF-8 encoding. The five
  emoji of the hooks are the only non-ASCII characters in the tables of the source;
  each is four bytes. UTF-8 is self-synchronising, so \<open>p in t\<close> on code points and
  on the encodings agree.
\<close>

definition flag_emoji :: string where
  \<comment> \<open>U+1F3C1, chequered flag\<close>
  "flag_emoji = [CHR 0xF0, CHR 0x9F, CHR 0x8F, CHR 0x81]"

definition thinking_emoji :: string where
  \<comment> \<open>U+1F914, thinking face\<close>
  "thinking_emoji = [CHR 0xF0, CHR 0x9F, CHR 0xA4, CHR 0x94]"

definition brain_emoji :: string where
  \<comment> \<open>U+1F9E0, brain\<close>
  "brain_emoji = [CHR 0xF0, CHR 0x9F, CHR 0xA7, CHR 0xA0]"

definition memo_emoji :: string where
  \<comment> \<open>U+1F4DD, memo\<close>
  "memo_emoji = [CHR 0xF0, CHR 0x9F, CHR 0x93, CHR 0x9D]"

definition party_emoji :: string where
  \<comment> \<open>U+1F389, party popper\<close>
  "party_emoji = [CHR 0xF0, CHR 0x9F, CHR 0x8E, CHR 0x89]"

text \<open>
  \<open>str.lower()\<close> on the letters of ASCII: A to Z go to a to z, and every other byte is
  kept, which is what Python does on digits, punctuation, blanks and emoji. Python also
  lower-cases the cased letters beyond ASCII (U+212A, the Kelvin sign, becomes \<open>k\<close>);
  those are not in this function. The claims about the classifier are stated on the
  lower-cased text.
\<close>

definition lower_char :: "char \<Rightarrow> char" where
  "lower_char c =
     (let n = (of_char c :: nat) in if 65 \<le> n \<and> n \<le> 90 then char_of (n + 32) else c)"

definition lower :: "string \<Rightarrow> string" where
  "lower s = map lower_char s"

text \<open>\<open>p in t\<close> on strings: \<open>p\<close> occurs in \<open>t\<close> as a contiguous block.\<close>

fun str_in :: "string \<Rightarrow> string \<Rightarrow> bool" where
  "str_in p [] = (p = [])"
| "str_in p (c # cs) = (prefix p (c # cs) \<or> str_in p cs)"

text \<open>\<open>any(p in t for p in ps)\<close>\<close>

definition any_in :: "string list \<Rightarrow> string \<Rightarrow> bool" where
  "any_in ps t = list_ex (\<lambda>p. str_in p t) ps"

subsection \<open>JSON values, as \<open>json.load\<close> returns them\<close>

text \<open>
  A float is only stored and compared here, never computed with; \<open>json.load\<close> also
  accepts the three non-finite literals.
\<close>

datatype pyfloat = Fin real | NaN | Inf bool

text \<open>
  A \<open>dict\<close> is an association list in insertion order; the first binding of a key is
  the one that counts.
\<close>

datatype json =
    JNull
  | JBool bool
  | JInt int
  | JFloat pyfloat
  | JStr string
  | JArr "json list"
  | JObj "(string \<times> json) list"

text \<open>The exceptions the hooks and the utility can meet.\<close>

datatype exc =
    AttributeError
  | TypeError
  | JSONDecodeError
  | OSError
  | SystemExit nat

text \<open>
  \<open>x.get(k, default)\<close>: only a \<open>dict\<close> has the method, on every other JSON value the
  call raises \<open>AttributeError\<close>.
\<close>

fun py_get :: "json \<Rightarrow> string \<Rightarrow> json \<Rightarrow> exc + json" where
  "py_get (JObj d) k dflt = Inr (case map_of d k of None \<Rightarrow> dflt | Some v \<Rightarrow> v)"
| "py_get _ k dflt = Inl AttributeError"

text \<open>Truth value of a JSON value (\<open>if x\<close>, \<open>not x\<close>).\<close>

fun truthy :: "json \<Rightarrow> bool" where
  "truthy JNull = False"
| "truthy (JBool b) = b"
| "truthy (JInt i) = (i \<noteq> 0)"
| "truthy (JFloat (Fin r)) = (r \<noteq> 0)"
| "truthy (JFloat _) = True"
| "truthy (JStr s) = (s \<noteq> [])"
| "truthy (JArr xs) = (xs \<noteq> [])"
| "truthy (JObj d) = (d \<noteq> [])"

section \<open>Phase classifier (factory\_notification.py)\<close>

text \<open>The dictionary \<open>phase_patterns\<close>, in insertion order.\<close>

definition phase_patterns :: "(int \<times> string list) list" where
  "phase_patterns =
     [(1, [flag_emoji @ '' phase 1'', ''system verification'', ''voice greeting'',
           ''welcome message'']),
      (2, [thinking_emoji @ '' phase 2'', ''question engine'', ''project discovery'',
           ''interactive interview'']),
      (3, [brain_emoji @ '' phase 3'', ''context assembly'', ''automated research'',
           ''tech stack analysis'']),
      (4, [memo_emoji @ '' phase 4'', ''generate project files'', ''claude.md'', ''prd.md'',
           ''tasks.md'']),
      (5, [party_emoji @ '' phase 5'', ''voice celebration'', ''project completion'',
           ''final success''])]"

text \<open>
  The two nested loops of \<open>detect_factory_phase\<close>: the first phase, in the order of
  the dictionary, one of whose patterns occurs in the text.
\<close>

fun first_phase :: "(int \<times> string list) list \<Rightarrow> string \<Rightarrow> int option" where
  "first_phase [] t = None"
| "first_phase ((phase, patterns) # rest) t =
     (if any_in patterns t then Some phase else first_phase rest t)"

definition detect_factory_phase :: "string \<Rightarrow> int option" where
  "detect_factory_phase todo_content =
     (if todo_content = [] then None
      else first_phase phase_patterns (lower todo_content))"

text \<open>The patterns of one phase, and those of all phases the loop visits before it.\<close>

definition patterns_of :: "int \<Rightarrow> string list" where
  "patterns_of k = concat (map snd (filter (\<lambda>e. fst e = k) phase_patterns))"

definition patterns_before :: "int \<Rightarrow> string list" where
  "patterns_before k = concat (map snd (takeWhile (\<lambda>e. fst e \<noteq> k) phase_patterns))"

text \<open>The first pattern of a phase: its emoji, a blank and \<open>phase k\<close>.\<close>

definition phase_marker :: "int \<Rightarrow> string" where
  "phase_marker k = (case patterns_of k of [] \<Rightarrow> [] | m # _ \<Rightarrow> m)"

section \<open>Announcement decision (factory\_notification.py)\<close>

definition factory_keywords :: "string list" where
  "factory_keywords =
     [''phase 1'', ''phase 2'', ''phase 3'', ''phase 4'', ''phase 5'',
      ''context engineering factory'', ''project discovery'', ''automated research'',
      ''generate project files'', ''voice celebration'',
      flag_emoji, thinking_emoji, brain_emoji, memo_emoji, party_emoji]"

text \<open>
  The body of the loop over the todos in \<open>should_announce_factory_progress\<close>:
  \<open>Inr (Some (phase, is_completed))\<close> when the body returns its announcement,
  \<open>Inr None\<close> when it falls through to the next item, \<open>Inl\<close> when it raises
  (an item that is no \<open>dict\<close>, a content that is no \<open>str\<close>).
\<close>

definition todo_decision :: "json \<Rightarrow> exc + (int \<times> bool) option" where
  "todo_decision todo =
     (case py_get todo ''content'' (JStr []) of
        Inl e \<Rightarrow> Inl e
      | Inr (JStr c) \<Rightarrow>
          (let content = lower c in
           case py_get todo ''status'' (JStr []) of
             Inl e \<Rightarrow> Inl e
           | Inr status \<Rightarrow>
               (let is_factory_todo = any_in factory_keywords content in
                if is_factory_todo then
                  (case detect_factory_phase content of
                     None \<Rightarrow> Inr None
                   | Some phase \<Rightarrow>
                       if phase \<noteq> 0 then
                         (let is_completed = (status = JStr ''completed'') in
                          if is_completed \<and> phase = 5 then Inr (Some (phase, is_completed))
                          else if status = JStr ''in_progress'' \<and> phase < 5
                            then Inr (Some (phase, False))
                          else Inr None)
                       else Inr None)
                else Inr None))
      | Inr _ \<Rightarrow> Inl AttributeError)"

text \<open>The loop: the first item whose body returns or raises ends it.\<close>

fun scan_todos :: "json list \<Rightarrow> exc + (bool \<times> int option \<times> bool option)" where
  "scan_todos [] = Inr (False, None, None)"
| "scan_todos (todo # todos) =
     (case todo_decision todo of
        Inl e \<Rightarrow> Inl e
      | Inr (Some (phase, is_completed)) \<Rightarrow> Inr (True, Some phase, Some is_completed)
      | Inr None \<Rightarrow> scan_todos todos)"

text \<open>
  \<open>for todo in todos\<close> is reached with a truthy \<open>todos\<close> only. A list gives its
  items; a non-empty \<open>dict\<close> or \<open>str\<close> gives a \<open>str\<close> first, on which \<open>get\<close> raises;
  a number or \<open>True\<close> cannot be iterated.
\<close>

definition should_announce_factory_progress ::
  "json \<Rightarrow> exc + (bool \<times> int option \<times> bool option)" where
  "should_announce_factory_progress input_data =
     (case py_get input_data ''tool_name'' (JStr []) of
        Inl e \<Rightarrow> Inl e
      | Inr tool_name \<Rightarrow>
          if tool_name \<noteq> JStr ''TodoWrite'' then Inr (False, None, None)
          else
            (case py_get input_data ''tool_input'' (JObj []) of
               Inl e \<Rightarrow> Inl e
             | Inr tool_input \<Rightarrow>
                 (case py_get tool_input ''todos'' (JArr []) of
                    Inl e \<Rightarrow> Inl e
                  | Inr todos \<Rightarrow>
                      if \<not> truthy todos then Inr (False, None, None)
                      else
                        (case todos of
                           JArr ts \<Rightarrow> scan_todos ts
                         | JObj _ \<Rightarrow> Inl AttributeError
                         | JStr _ \<Rightarrow> Inl AttributeError
                         | _ \<Rightarrow> Inl TypeError))))"

text \<open>
  The trigger patterns of the classifier, split by whether a keyword of
  \<open>factory_keywords\<close> occurs inside the pattern itself.
\<close>

definition all_patterns :: "string list" where
  "all_patterns = concat (map snd phase_patterns)"

definition covered_patterns :: "string list" where
  "covered_patterns = filter (any_in factory_keywords) all_patterns"

definition uncovered_patterns :: "string list" where
  "uncovered_patterns = filter (\<lambda>p. \<not> any_in factory_keywords p) all_patterns"

text \<open>A TodoWrite event with the given todo list, and a todo item.\<close>

definition todo_event :: "json list \<Rightarrow> json" where
  "todo_event ts =
     JObj [(''tool_name'', JStr ''TodoWrite''), (''tool_input'', JObj [(''todos'', JArr ts)])]"

definition todo_item :: "string \<Rightarrow> string \<Rightarrow> json" where
  "todo_item c st = JObj [(''content'', JStr c), (''status'', JStr st)]"

section \<open>The conditions on a todo item\<close>

text \<open>A todo item with a text as its content, and its status.\<close>

definition item_fields :: "json \<Rightarrow> string \<Rightarrow> json \<Rightarrow> bool" where
  "item_fields todo c s =
     (py_get todo ''content'' (JStr []) = Inr (JStr c)
      \<and> py_get todo ''status'' (JStr []) = Inr s)"

text \<open>
  The combinations of phase and status that are announced: phase 5 when completed,
  phases 1 to 4 when in progress.
\<close>

definition announced_combination :: "int \<Rightarrow> json \<Rightarrow> bool" where
  "announced_combination p s =
     ((p = 5 \<and> s = JStr ''completed'') \<or> (p \<in> {1..4} \<and> s = JStr ''in_progress''))"

text \<open>
  An item is announced with phase \<open>p\<close> when it is factory-relevant, the classifier
  gives its lower-cased content the phase \<open>p\<close>, and phase and status are an announced
  combination. It is skipped when it is not factory-relevant, or has no phase, or its
  phase and status are no announced combination.
\<close>

definition announced_item :: "string \<Rightarrow> json \<Rightarrow> int \<Rightarrow> bool" where
  "announced_item c s p =
     (any_in factory_keywords (lower c)
      \<and> detect_factory_phase (lower c) = Some p
      \<and> announced_combination p s)"

definition skipped_item :: "string \<Rightarrow> json \<Rightarrow> bool" where
  "skipped_item c s =
     (\<not> any_in factory_keywords (lower c)
      \<or> (case detect_factory_phase (lower c) of
            None \<Rightarrow> True
          | Some p \<Rightarrow> \<not> announced_combination p s))"

section \<open>Message generator (factory\_notification.py)\<close>

text \<open>
  The name reaches the generator as \<open>None\<close> or a \<open>str\<close>. \<open>name_given\<close> is its truth
  value, \<open>format_name\<close> what an f-string makes of it.
\<close>

definition name_given :: "string option \<Rightarrow> bool" where
  "name_given engineer_name = (case engineer_name of None \<Rightarrow> False | Some s \<Rightarrow> s \<noteq> [])"

definition format_name :: "string option \<Rightarrow> string" where
  "format_name engineer_name = (case engineer_name of None \<Rightarrow> ''None'' | Some s \<Rightarrow> s)"

definition completion_messages :: "string list" where
  "completion_messages =
     [''EchoContext Factory operation complete! Your project is ready for acceleration!'',
      ''Quantum context assembly successful! Speed enhances understanding - ready to build!'',
      ''Factory mission accomplished! Your AI amplifier is now supercharged!'',
      ''Context engineering complete! Time to transform ideas into reality!'',
      ''Factory optimization finished! Your consciousness catalyst awaits deployment!'']"

definition personal_completion_messages :: "string \<Rightarrow> string list" where
  "personal_completion_messages n =
     [''Amazing work, '' @ n @ ''! Your EchoContext Factory has created the perfect setup!'',
      ''Brilliant, '' @ n @ ''! Your project context is now optimized for maximum acceleration!'',
      ''Outstanding, '' @ n @ ''! The factory has generated a comprehensive development blueprint!'',
      ''Exceptional results, '' @ n @ ''! Your AI collaborator is now fully contextualized!'',
      ''Perfect execution, '' @ n @ ''! Your Scientific Mediator approach has created excellence!'']"

text \<open>The dictionary \<open>phase_messages\<close>: for each phase its generic and its personal pool.\<close>

definition phase_messages :: "string \<Rightarrow> (int \<times> string list \<times> string list) list" where
  "phase_messages n =
     [(1,
       [''EchoContext Factory activated - preparing quantum setup'',
        ''Factory systems online - initializing consciousness bridge'',
        ''Welcome to acceleration mode - factory components verified'',
        ''Quantum context assembly initiated - all systems operational''],
       [''Hey '' @ n @ '', EchoContext Factory is spinning up for maximum speed!'',
        n @ '', your consciousness catalyst is activating - let's accelerate!'',
        ''Speed mode engaged, '' @ n @ '' - factory ready for your brilliance!'',
        n @ '', your AI amplifier is online and ready to optimize!'']),
      (2,
       [''Interview engine online - ready for intelligence gathering'',
        ''Question framework activated - preparing comprehensive analysis'',
        ''Project discovery mode engaged - optimizing context collection'',
        ''Smart interview system ready - initiating knowledge extraction''],
       [n @ '', interview mode activated - time to gather your project vision!'',
        ''Ready for your input, '' @ n @ '' - let's build the perfect context!'',
        n @ '', question engine online - your Scientific Mediator skills needed!'',
        ''Speed up the discovery, '' @ n @ '' - factory is ready for your requirements!'']),
      (3,
       [''Tech stack analysis in progress - optimizing architecture'',
        ''Context assembly engaged - building comprehensive framework'',
        ''Pattern matching active - identifying optimal solutions'',
        ''Technology optimization running - crafting perfect setup''],
       [n @ '', tech stack optimization in progress - creating your ideal setup!'',
        ''Analyzing patterns for you, '' @ n @ '' - building the perfect architecture!'',
        n @ '', context assembly engaged - your vision is taking shape!'',
        ''Speed optimization active, '' @ n @ '' - crafting your development blueprint!'']),
      (4,
       [''File generation commencing - creating comprehensive context'',
        ''Template processing active - building project foundation'',
        ''Document assembly in progress - generating development blueprint'',
        ''Context materialization engaged - creating your project framework''],
       [n @ '', file generation in progress - your comprehensive context is materializing!'',
        ''Creating your project foundation, '' @ n @ '' - documents are being optimized!'',
        n @ '', context assembly nearly complete - your blueprint is taking form!'',
        ''Almost there, '' @ n @ '' - generating your perfect development framework!'']),
      (5,
       [''Final optimizations in progress - preparing project completion'',
        ''Quality assurance active - verifying context completeness'',
        ''Project finalization engaged - ensuring excellence standards'',
        ''Completion protocols running - validating factory output''],
       [n @ '', final touches in progress - your project setup is almost perfect!'',
        ''Quality checks running, '' @ n @ '' - ensuring your context meets excellence standards!'',
        n @ '', completion protocols active - your factory output is being validated!'',
        ''Almost finished, '' @ n @ '' - your AI collaborator is being finalized!''])]"

text \<open>
  \<open>random.choice(xs)\<close> is \<open>xs[i]\<close> for a random index below the length; \<open>k\<close> is the
  random number the index is reduced from. Every pool it is called on is a non-empty
  literal.
\<close>

definition choice :: "'a list \<Rightarrow> nat \<Rightarrow> 'a" where
  "choice xs k = xs ! (k mod length xs)"

text \<open>
  The literal \<open>0.7\<close> of the source is a double: the multiple of \<open>2 ^ -53\<close> nearest to
  seven tenths, a little below it.
\<close>

definition double_0_7 :: real where
  "double_0_7 = 6305039478318694 / 2 ^ 53"

text \<open>
  The two random draws are arguments: \<open>u\<close> is the value of the double that
  \<open>random.random()\<close> returns, a multiple of \<open>2 ^ -53\<close> from 0 up to but excluding 1, and
  \<open>k\<close> feeds \<open>random.choice\<close>. Doubles compare as their values do, so
  \<open>random.random() < 0.7\<close> is \<open>u < double_0_7\<close>. The result \<open>None\<close> is Python's \<open>None\<close>.
\<close>

definition get_factory_message ::
  "int \<Rightarrow> string option \<Rightarrow> bool \<Rightarrow> real \<Rightarrow> nat \<Rightarrow> string option" where
  "get_factory_message phase engineer_name is_completed u k =
     (if is_completed \<and> phase = 5 then
        (if name_given engineer_name \<and> u < double_0_7
         then Some (choice (personal_completion_messages (format_name engineer_name)) k)
         else Some (choice completion_messages k))
      else
        (case map_of (phase_messages (format_name engineer_name)) phase of
           None \<Rightarrow> None
         | Some (generic, personal) \<Rightarrow>
             if name_given engineer_name \<and> u < double_0_7
             then Some (choice personal k)
             else Some (choice generic k)))"

text \<open>The two pools of a phase, read off the dictionary.\<close>

definition generic_messages :: "int \<Rightarrow> string list" where
  "generic_messages phase =
     (case map_of (phase_messages []) phase of None \<Rightarrow> [] | Some (generic, personal) \<Rightarrow> generic)"

definition personal_messages :: "int \<Rightarrow> string \<Rightarrow> string list" where
  "personal_messages phase n =
     (case map_of (phase_messages n) phase of None \<Rightarrow> [] | Some (generic, personal) \<Rightarrow> personal)"

section \<open>Voice configuration file\<close>

text \<open>
  What a reader finds at \<open>~/.claude/config/factory.json\<close>: a path that cannot be
  determined or examined (\<open>Path.home()\<close> raises, or the \<open>stat\<close> behind \<open>exists\<close> fails
  with an error other than the four that mean absence, such as a directory without
  search permission), no file, a file that cannot be opened or read, a file that is not
  JSON, or a file that \<open>json.load\<close> turns into a value.
\<close>

datatype file_state = Inaccessible | Missing | Unreadable | Malformed | Parsed json

text \<open>
  \<open>os.path.exists\<close> answers \<open>False\<close> on every error of \<open>stat\<close>; \<open>Path.exists\<close> answers
  \<open>False\<close> on the errors that mean absence and raises the others.
\<close>

definition os_path_exists :: "file_state \<Rightarrow> bool" where
  "os_path_exists f = (case f of Inaccessible \<Rightarrow> False | Missing \<Rightarrow> False | _ \<Rightarrow> True)"

definition Path_exists :: "file_state \<Rightarrow> exc + bool" where
  "Path_exists f =
     (case f of Inaccessible \<Rightarrow> Inl OSError | Missing \<Rightarrow> Inr False | _ \<Rightarrow> Inr True)"

text \<open>\<open>open\<close> followed by \<open>json.load\<close>.\<close>

definition read_json :: "file_state \<Rightarrow> exc + json" where
  "read_json f =
     (case f of
        Inaccessible \<Rightarrow> Inl OSError
      | Missing \<Rightarrow> Inl OSError
      | Unreadable \<Rightarrow> Inl OSError
      | Malformed \<Rightarrow> Inl JSONDecodeError
      | Parsed config \<Rightarrow> Inr config)"

text \<open>\<open>except Exception\<close> catches everything here but \<open>SystemExit\<close>.\<close>

definition is_Exception :: "exc \<Rightarrow> bool" where
  "is_Exception e = (case e of SystemExit _ \<Rightarrow> False | _ \<Rightarrow> True)"

text \<open>
  What both copies of \<open>is_voice_enabled\<close> do once the file is known to exist:
  load it and read the flag.
\<close>

definition read_voice_flag :: "file_state \<Rightarrow> exc + json" where
  "read_voice_flag f =
     (case read_json f of
        Inl e \<Rightarrow> Inl e
      | Inr config \<Rightarrow>
          (case py_get config ''voice'' (JObj []) of
             Inl e \<Rightarrow> Inl e
           | Inr voice \<Rightarrow> py_get voice ''factoryNotifications'' (JBool True)))"

text \<open>
  The body of the \<open>try\<close> in \<open>is_voice_enabled\<close> of factory\_notification.py, which tests
  the path with \<open>os.path.exists\<close>, then the function with its handler.
\<close>

definition voice_flag :: "file_state \<Rightarrow> exc + json" where
  "voice_flag f = (if \<not> os_path_exists f then Inr (JBool True) else read_voice_flag f)"

definition is_voice_enabled :: "file_state \<Rightarrow> exc + json" where
  "is_voice_enabled f =
     (case voice_flag f of
        Inr v \<Rightarrow> Inr v
      | Inl e \<Rightarrow> if is_Exception e then Inr (JBool True) else Inl e)"

text \<open>
  The copy in notification.py tests the path with \<open>Path.exists\<close>, inside the \<open>try\<close>.
\<close>

definition notification_voice_flag :: "file_state \<Rightarrow> exc + json" where
  "notification_voice_flag f =
     (case Path_exists f of
        Inl e \<Rightarrow> Inl e
      | Inr found \<Rightarrow> if \<not> found then Inr (JBool True) else read_voice_flag f)"


section \<open>Voice control utility (voice\_control.py)\<close>

text \<open>
  What the utility prints, one constructor for each block of \<open>print\<close> calls: the three
  diagnostics of \<open>load_factory_config\<close>, the one of \<open>save_factory_config\<close>, the two
  summaries of \<open>set_voice_state\<close>, the hint of \<open>toggle_voice_state\<close>, the two reports
  of \<open>get_voice_status\<close> and the message of the last handler in \<open>main\<close>.
\<close>

datatype msg =
    ConfigNotFound
  | InvalidJSON
  | ReadFailed
  | SaveFailed
  | VoiceEnabled
  | VoiceDisabled
  | ToggleHint bool
  | StatusEnabled
  | StatusDisabled
  | UnexpectedError

text \<open>
  What writing the file does: it succeeds, \<open>open\<close> fails and the file stays as it
  was, or \<open>json.dump\<close> fails after \<open>open\<close> has emptied the file.
\<close>

datatype write_outcome = WriteOk | OpenFails | DumpFails

record world =
  config_file :: file_state
  on_write :: write_outcome
  stdout :: "msg list"

text \<open>\<open>print\<close>, on a standard output that takes the text.\<close>

definition print :: "msg \<Rightarrow> world \<Rightarrow> world" where
  "print m w = w\<lparr>stdout := stdout w @ [m]\<rparr>"

text \<open>\<open>sys.exit(1)\<close> raises \<open>SystemExit\<close>, which the handlers for \<open>Exception\<close> let through.\<close>

text \<open>
  \<open>load_factory_config\<close> calls \<open>get_factory_config_path\<close> and \<open>config_path.exists()\<close>
  before its \<open>try\<close>: what they raise leaves the function as it is.
\<close>

definition load_factory_config :: "world \<Rightarrow> (exc + json) \<times> world" where
  "load_factory_config w =
     (case Path_exists (config_file w) of
        Inl e \<Rightarrow> (Inl e, w)
      | Inr found \<Rightarrow>
          if \<not> found then (Inl (SystemExit 1), print ConfigNotFound w)
          else
            (case read_json (config_file w) of
               Inr config \<Rightarrow> (Inr config, w)
             | Inl JSONDecodeError \<Rightarrow> (Inl (SystemExit 1), print InvalidJSON w)
             | Inl e \<Rightarrow>
                 if is_Exception e then (Inl (SystemExit 1), print ReadFailed w)
                 else (Inl e, w)))"

definition save_factory_config :: "json \<Rightarrow> world \<Rightarrow> (exc + unit) \<times> world" where
  "save_factory_config config w =
     (case on_write w of
        WriteOk \<Rightarrow> (Inr (), w\<lparr>config_file := Parsed config\<rparr>)
      | OpenFails \<Rightarrow> (Inl (SystemExit 1), print SaveFailed w)
      | DumpFails \<Rightarrow> (Inl (SystemExit 1), print SaveFailed (w\<lparr>config_file := Malformed\<rparr>)))"

text \<open>
  \<open>x[k] = v\<close>: a \<open>dict\<close> keeps the place of a key it has and puts a new key last; every
  other JSON value raises \<open>TypeError\<close> for a \<open>str\<close> key.
\<close>

fun py_setitem :: "json \<Rightarrow> string \<Rightarrow> json \<Rightarrow> exc + json" where
  "py_setitem (JObj d) k v = Inr (JObj (AList.update k v d))"
| "py_setitem _ k v = Inl TypeError"

text \<open>The dictionary that \<open>set_voice_state\<close> stores under \<open>voice\<close>.\<close>

definition voice_settings :: "bool \<Rightarrow> json" where
  "voice_settings new_state =
     JObj [(''factoryNotifications'', JBool new_state),
           (''phaseAnnouncements'', JBool new_state),
           (''progressUpdates'', JBool new_state),
           (''completionCelebration'', JBool new_state),
           (''personalizedMessages'', JBool new_state),
           (''nameUsageRate'', JFloat (Fin (if new_state then 0.7 else 0.0)))]"

definition set_voice_state :: "bool \<Rightarrow> world \<Rightarrow> (exc + unit) \<times> world" where
  "set_voice_state new_state w =
     (case load_factory_config w of
        (Inl e, w1) \<Rightarrow> (Inl e, w1)
      | (Inr config, w1) \<Rightarrow>
          (case py_setitem config ''voice'' (voice_settings new_state) of
             Inl e \<Rightarrow> (Inl e, w1)
           | Inr config' \<Rightarrow>
               (case save_factory_config config' w1 of
                  (Inl e, w2) \<Rightarrow> (Inl e, w2)
                | (Inr _, w2) \<Rightarrow>
                    (Inr (), print (if new_state then VoiceEnabled else VoiceDisabled) w2))))"

definition toggle_voice_state :: "world \<Rightarrow> (exc + unit) \<times> world" where
  "toggle_voice_state w =
     (case load_factory_config w of
        (Inl e, w1) \<Rightarrow> (Inl e, w1)
      | (Inr config, w1) \<Rightarrow>
          (case py_get config ''voice'' (JObj []) of
             Inl e \<Rightarrow> (Inl e, w1)
           | Inr voice_config \<Rightarrow>
               (case py_get voice_config ''factoryNotifications'' (JBool True) of
                  Inl e \<Rightarrow> (Inl e, w1)
                | Inr current_state \<Rightarrow>
                    (let new_state = \<not> truthy current_state in
                     case set_voice_state new_state w1 of
                       (Inl e, w2) \<Rightarrow> (Inl e, w2)
                     | (Inr _, w2) \<Rightarrow> (Inr (), print (ToggleHint new_state) w2)))))"

text \<open>
  \<open>get_voice_status\<close> wraps its body in \<open>try\<close> with \<open>except SystemExit: pass\<close>: the exit
  that \<open>load_factory_config\<close> asks for ends here and the function returns.
\<close>

definition get_voice_status :: "world \<Rightarrow> (exc + unit) \<times> world" where
  "get_voice_status w =
     (let body =
        (case load_factory_config w of
           (Inl e, w1) \<Rightarrow> (Inl e, w1)
         | (Inr config, w1) \<Rightarrow>
             (case py_get config ''voice'' (JObj []) of
                Inl e \<Rightarrow> (Inl e, w1)
              | Inr voice_config \<Rightarrow>
                  (case py_get voice_config ''factoryNotifications'' (JBool True) of
                     Inl e \<Rightarrow> (Inl e, w1)
                   | Inr is_enabled \<Rightarrow>
                       (Inr (),
                        print (if truthy is_enabled then StatusEnabled else StatusDisabled) w1))))
      in case body of
           (Inl (SystemExit _), w1) \<Rightarrow> (Inr (), w1)
         | r \<Rightarrow> r)"

text \<open>The four \<open>store_true\<close> flags of the command line.\<close>

record args =
  enable :: bool
  disable :: bool
  toggle :: bool
  status :: bool

text \<open>
  \<open>main\<close>, as the exit status of the process and the world it leaves: 0 when the chosen
  function returns, the code of a \<open>SystemExit\<close>, and 1 with a message for any other
  exception.
\<close>

definition main :: "args \<Rightarrow> world \<Rightarrow> nat \<times> world" where
  "main a w =
     (let r =
        (if enable a then set_voice_state True w
         else if disable a then set_voice_state False w
         else if toggle a then toggle_voice_state w
         else if status a then get_voice_status w
         else toggle_voice_state w)
      in case r of
           (Inr _, w') \<Rightarrow> (0, w')
         | (Inl (SystemExit code), w') \<Rightarrow> (code, w')
         | (Inl e, w') \<Rightarrow> (1, print UnexpectedError w'))"

text \<open>The status branch of \<open>main\<close> is the one taken.\<close>

definition status_selected :: "args \<Rightarrow> bool" where
  "status_selected a = (\<not> enable a \<and> \<not> disable a \<and> \<not> toggle a \<and> status a)"


text \<open>
  The invariant of the stored voice object: the five flags are the same boolean, and
  \<open>nameUsageRate\<close> is 0.7 when it is true and 0.0 when it is false.
\<close>

definition voice_invariant :: "json \<Rightarrow> bool" where
  "voice_invariant v =
     (case v of
        JObj d \<Rightarrow>
          (case map_of d ''factoryNotifications'' of
             Some (JBool b) \<Rightarrow>
               map_of d ''phaseAnnouncements'' = Some (JBool b)
               \<and> map_of d ''progressUpdates'' = Some (JBool b)
               \<and> map_of d ''completionCelebration'' = Some (JBool b)
               \<and> map_of d ''personalizedMessages'' = Some (JBool b)
               \<and> map_of d ''nameUsageRate'' = Some (JFloat (Fin (if b then 0.7 else 0.0)))
           | _ \<Rightarrow> False)
      | _ \<Rightarrow> False)"

section \<open>Backend selection and the fallback cascade (factory\_notification.py)\<close>

text \<open>The three scripts under \<open>utils/tts\<close>, in the order of priority.\<close>

datatype backend = ElevenLabs | OpenAI | Pyttsx3

text \<open>
  What \<open>subprocess.run(..., timeout=15, check=True)\<close> does for a script: it returns, or
  raises \<open>TimeoutExpired\<close> or \<open>CalledProcessError\<close> (both are \<open>SubprocessError\<close>), or the
  process cannot be started at all (\<open>FileNotFoundError\<close> for \<open>uv\<close>, an \<open>OSError\<close>).
\<close>

datatype run_result = Success | TimeoutExpired | CalledProcessError | LaunchError

text \<open>
  What the hook finds when it runs: the configuration file, the JSON on standard input
  (\<open>None\<close> when it does not parse), the three environment variables as \<open>os.getenv\<close> gives
  them, which scripts exist, what running each script does, and the two random draws.
\<close>

record env =
  voice_config :: file_state
  stdin_json :: "json option"
  ELEVENLABS_API_KEY :: "string option"
  OPENAI_API_KEY :: "string option"
  ENGINEER_NAME :: "string option"
  elevenlabs_exists :: bool
  openai_exists :: bool
  pyttsx3_exists :: bool
  run :: "backend \<Rightarrow> run_result"
  random_u :: real
  random_k :: nat

text \<open>Truth value of \<open>os.getenv(name)\<close>: the variable is set and not empty.\<close>

definition key_set :: "string option \<Rightarrow> bool" where
  "key_set v = (case v of None \<Rightarrow> False | Some s \<Rightarrow> s \<noteq> [])"

definition get_tts_script_path :: "env \<Rightarrow> backend option" where
  "get_tts_script_path e =
     (if key_set (ELEVENLABS_API_KEY e) \<and> elevenlabs_exists e then Some ElevenLabs
      else if key_set (OPENAI_API_KEY e) \<and> openai_exists e then Some OpenAI
      else if pyttsx3_exists e then Some Pyttsx3
      else None)"

text \<open>The list \<open>fallback_scripts\<close> that \<open>announce_factory_progress\<close> builds.\<close>

definition fallback_scripts :: "env \<Rightarrow> backend list" where
  "fallback_scripts e =
     (if elevenlabs_exists e then [ElevenLabs] else [])
     @ (if openai_exists e then [OpenAI] else [])
     @ (if pyttsx3_exists e then [Pyttsx3] else [])"

text \<open>
  The loop over \<open>fallback_scripts\<close>, as the list of the scripts it has run: a success
  leaves the loop, a timeout or a failed script moves on, and an error the inner handler
  does not name leaves the function through the outer handler.
\<close>

fun try_scripts :: "(backend \<Rightarrow> run_result) \<Rightarrow> backend list \<Rightarrow> backend list" where
  "try_scripts r [] = []"
| "try_scripts r (script_path # rest) =
     script_path #
       (case r script_path of
          Success \<Rightarrow> []
        | TimeoutExpired \<Rightarrow> try_scripts r rest
        | CalledProcessError \<Rightarrow> try_scripts r rest
        | LaunchError \<Rightarrow> [])"

text \<open>
  The characters \<open>str.strip()\<close> removes, each in its UTF-8 encoding: the code points
  9 to 13, 28 to 32, U+0085, U+00A0, U+1680, U+2000 to U+200A, U+2028, U+2029, U+202F,
  U+205F and U+3000.
\<close>

definition whitespace :: "string list" where
  "whitespace =
     [ [CHR 0x09], [CHR 0x0A], [CHR 0x0B], [CHR 0x0C], [CHR 0x0D], [CHR 0x1C], [CHR 0x1D],
      [CHR 0x1E], [CHR 0x1F], [CHR 0x20], [CHR 0xC2, CHR 0x85], [CHR 0xC2, CHR 0xA0],
      [CHR 0xE1, CHR 0x9A, CHR 0x80], [CHR 0xE2, CHR 0x80, CHR 0x80],
      [CHR 0xE2, CHR 0x80, CHR 0x81], [CHR 0xE2, CHR 0x80, CHR 0x82],
      [CHR 0xE2, CHR 0x80, CHR 0x83], [CHR 0xE2, CHR 0x80, CHR 0x84],
      [CHR 0xE2, CHR 0x80, CHR 0x85], [CHR 0xE2, CHR 0x80, CHR 0x86],
      [CHR 0xE2, CHR 0x80, CHR 0x87], [CHR 0xE2, CHR 0x80, CHR 0x88],
      [CHR 0xE2, CHR 0x80, CHR 0x89], [CHR 0xE2, CHR 0x80, CHR 0x8A],
      [CHR 0xE2, CHR 0x80, CHR 0xA8], [CHR 0xE2, CHR 0x80, CHR 0xA9],
      [CHR 0xE2, CHR 0x80, CHR 0xAF], [CHR 0xE2, CHR 0x81, CHR 0x9F],
      [CHR 0xE3, CHR 0x80, CHR 0x80]]"

text \<open>Take characters of the given set off the front for as long as there is one.\<close>

function strip_front :: "string list \<Rightarrow> string \<Rightarrow> string" where
  "strip_front ws s =
     (case find (\<lambda>w. w \<noteq> [] \<and> prefix w s) ws of
        None \<Rightarrow> s
      | Some w \<Rightarrow> strip_front ws (drop (length w) s))"
  by pat_completeness auto
termination
proof (relation "measure (\<lambda>(ws, s). length s)")
  show "wf (measure (\<lambda>(ws, s). length s))" by simp
next
  fix ws :: "string list" and s w :: string
  assume "find (\<lambda>w. w \<noteq> [] \<and> prefix w s) ws = Some w"
  then have "w \<noteq> []" and "prefix w s"
    by (auto simp: find_Some_iff)
  then have "s \<noteq> []" by auto
  with \<open>w \<noteq> []\<close> show "((ws, drop (length w) s), (ws, s)) \<in> measure (\<lambda>(ws, s). length s)"
    by simp
qed

text \<open>
  \<open>str.strip()\<close>: off the front, then off the back. A character of UTF-8 starts with a
  byte that no other character has inside it, so a match at either end is a whole
  character.
\<close>

definition strip :: "string \<Rightarrow> string" where
  "strip s = rev (strip_front (map rev whitespace) (rev (strip_front whitespace s)))"

text \<open>
  \<open>announce_factory_progress\<close>, as the list of the scripts it runs, each with the
  message it is given. The function returns nothing and every exception ends in one of
  its handlers, so an exception shows as the end of the list.
\<close>

definition announce_factory_progress :: "env \<Rightarrow> (backend \<times> string) list" where
  "announce_factory_progress e =
     (case is_voice_enabled (voice_config e) of
        Inl _ \<Rightarrow> []
      | Inr enabled \<Rightarrow>
          if \<not> truthy enabled then []
          else
            (case stdin_json e of
               None \<Rightarrow> []
             | Some input_data \<Rightarrow>
                 (case should_announce_factory_progress input_data of
                    Inl _ \<Rightarrow> []
                  | Inr (should_announce, None, _) \<Rightarrow> []
                  | Inr (should_announce, Some phase, is_completed) \<Rightarrow>
                      if \<not> should_announce then []
                      else if phase = 0 then []
                      else
                        (case get_tts_script_path e of
                           None \<Rightarrow> []
                         | Some tts_script \<Rightarrow>
                             (let engineer_name =
                                    strip (case ENGINEER_NAME e of None \<Rightarrow> [] | Some s \<Rightarrow> s);
                                  message =
                                    get_factory_message phase (Some engineer_name)
                                      (is_completed = Some True) (random_u e) (random_k e)
                              in case message of
                                   None \<Rightarrow> []
                                 | Some m \<Rightarrow>
                                     if m = [] then []
                                     else map (\<lambda>s. (s, m))
                                            (try_scripts (run e) (fallback_scripts e)))))))"

text \<open>
  An environment with no API key, no configuration file, the two cloud scripts but
  not the local one, every script succeeding when run, and a phase 3 item in progress
  on standard input.
\<close>

definition cloud_scripts_only :: env where
  "cloud_scripts_only =
     \<lparr>voice_config = Missing,
      stdin_json =
        Some (todo_event [todo_item (brain_emoji @ '' Phase 3: context assembly'')
                            ''in_progress'']),
      ELEVENLABS_API_KEY = None,
      OPENAI_API_KEY = None,
      ENGINEER_NAME = None,
      elevenlabs_exists = True,
      openai_exists = True,
      pyttsx3_exists = False,
      run = (\<lambda>s. Success),
      random_u = 0.5,
      random_k = 0\<rparr>"

section \<open>Example inputs\<close>

text \<open>Command lines, worlds and a configuration for the concrete runs below.\<close>

definition flags :: "bool \<Rightarrow> bool \<Rightarrow> bool \<Rightarrow> bool \<Rightarrow> args" where
  "flags e d t s = \<lparr>enable = e, disable = d, toggle = t, status = s\<rparr>"

definition world_with :: "file_state \<Rightarrow> world" where
  "world_with f = \<lparr>config_file = f, on_write = WriteOk, stdout = []\<rparr>"

definition example_config :: "(string \<times> json) list" where
  "example_config =
     [(''factory'', JObj [(''version'', JStr ''1.0'')]),
      (''voice'', JObj [(''factoryNotifications'', JBool True), (''volume'', JInt 3)]),
      (''projects'', JArr [JStr ''demo''])]"

section \<open>Facts about strings\<close>

lemma str_in_sublist: "str_in p t = sublist p t"
  by (induction t) (simp_all add: sublist_Cons_right)

lemma str_in_trans: "str_in a b \<Longrightarrow> str_in b c \<Longrightarrow> str_in a c"
  unfolding str_in_sublist by (rule sublist_order.order_trans)

lemma str_in_empty_text: "str_in p [] \<longleftrightarrow> p = []"
  by simp

lemma lower_Nil: "lower [] = []"
  by (simp add: lower_def)

lemma lower_eq_Nil: "lower s = [] \<longleftrightarrow> s = []"
  by (simp add: lower_def)

lemma any_in_Nil: "any_in [] t = False"
  by (simp add: any_in_def)

lemma any_in_Cons: "any_in (p # ps) t \<longleftrightarrow> str_in p t \<or> any_in ps t"
  by (simp add: any_in_def)

lemma any_in_append: "any_in (ps @ qs) t \<longleftrightarrow> any_in ps t \<or> any_in qs t"
  by (simp add: any_in_def)

lemma any_in_iff: "any_in ps t \<longleftrightarrow> (\<exists>p \<in> set ps. str_in p t)"
  by (simp add: any_in_def list_ex_iff)

section \<open>Facts about the phase classifier\<close>

text \<open>
  The first-match rule for any table with distinct keys: a phase is returned when one
  of its patterns occurs and no pattern of an earlier entry does.
\<close>

lemma first_phase_hit:
  "(k, ps) \<in> set tbl \<Longrightarrow> distinct (map fst tbl) \<Longrightarrow> any_in ps t \<Longrightarrow>
   \<not> any_in (concat (map snd (takeWhile (\<lambda>e. fst e \<noteq> k) tbl))) t \<Longrightarrow>
   first_phase tbl t = Some k"
proof (induction tbl)
  case Nil
  then show ?case by simp
next
  case (Cons e tbl)
  obtain j qs where e: "e = (j, qs)" by (cases e)
  show ?case
  proof (cases "j = k")
    case True
    with Cons.prems e have "qs = ps" by (auto simp: image_iff)
    with True e Cons.prems(3) show ?thesis by simp
  next
    case False
    with Cons.prems e have mem: "(k, ps) \<in> set tbl" and dist: "distinct (map fst tbl)"
      by auto
    from False Cons.prems(4) e have no_qs: "\<not> any_in qs t"
      and no_before: "\<not> any_in (concat (map snd (takeWhile (\<lambda>e. fst e \<noteq> k) tbl))) t"
      by (simp_all add: any_in_append)
    from Cons.IH [OF mem dist Cons.prems(3) no_before] no_qs e show ?thesis by simp
  qed
qed

lemma first_phase_range: "first_phase tbl t = Some k \<Longrightarrow> k \<in> fst ` set tbl"
  by (induction tbl) (auto split: if_splits)

lemma phase_patterns_keys: "map fst phase_patterns = [1, 2, 3, 4, 5]"
  by (simp add: phase_patterns_def)

lemma detect_factory_phase_range:
  "detect_factory_phase t = Some k \<Longrightarrow> 1 \<le> k \<and> k \<le> 5"
proof -
  assume "detect_factory_phase t = Some k"
  then have "first_phase phase_patterns (lower t) = Some k"
    by (simp add: detect_factory_phase_def split: if_splits)
  then have "k \<in> set (map fst phase_patterns)"
    using first_phase_range by fastforce
  then show ?thesis unfolding phase_patterns_keys by auto
qed

lemma phase_patterns_entry:
  "k \<in> {1..5} \<Longrightarrow> (k, patterns_of k) \<in> set phase_patterns"
proof -
  assume "k \<in> {1..5}"
  then have "k = 1 \<or> k = 2 \<or> k = 3 \<or> k = 4 \<or> k = 5" by auto
  then show ?thesis
    by (elim disjE) (simp_all add: patterns_of_def phase_patterns_def)
qed

lemma phase_marker_in_patterns:
  "k \<in> {1..5} \<Longrightarrow> phase_marker k \<in> set (patterns_of k) \<and> phase_marker k \<noteq> []"
proof -
  assume "k \<in> {1..5}"
  then have "k = 1 \<or> k = 2 \<or> k = 3 \<or> k = 4 \<or> k = 5" by auto
  then show ?thesis
    by (elim disjE)
      (simp_all add: phase_marker_def patterns_of_def phase_patterns_def flag_emoji_def
        thinking_emoji_def brain_emoji_def memo_emoji_def party_emoji_def)
qed

lemma lower_char_idem: "lower_char (lower_char c) = lower_char c"
  by (auto simp: lower_char_def Let_def)

lemma lower_idem: "lower (lower s) = lower s"
  by (simp add: lower_def lower_char_idem)

text \<open>
  The dispatcher hands the classifier a content it has lower-cased already; the
  classifier lower-cases again, which changes nothing.
\<close>

lemma detect_factory_phase_lower: "detect_factory_phase (lower c) = detect_factory_phase c"
  by (simp add: detect_factory_phase_def lower_idem lower_eq_Nil)

lemma first_phase_any: "first_phase tbl t = Some k \<Longrightarrow> any_in (concat (map snd tbl)) t"
  by (induction tbl) (auto simp: any_in_append split: if_splits)

lemma patterns_split: "set all_patterns = set covered_patterns \<union> set uncovered_patterns"
  by (auto simp: covered_patterns_def uncovered_patterns_def)

lemma covered_patterns_list:
  "covered_patterns =
     [flag_emoji @ '' phase 1'', thinking_emoji @ '' phase 2'', ''project discovery'',
      brain_emoji @ '' phase 3'', ''automated research'', memo_emoji @ '' phase 4'',
      ''generate project files'', party_emoji @ '' phase 5'', ''voice celebration'']"
  by code_simp

lemma uncovered_patterns_list:
  "uncovered_patterns =
     [''system verification'', ''voice greeting'', ''welcome message'', ''question engine'',
      ''interactive interview'', ''context assembly'', ''tech stack analysis'', ''claude.md'',
      ''prd.md'', ''tasks.md'', ''project completion'', ''final success'']"
  by code_simp

lemma uncovered_all:
  "\<forall>q \<in> set uncovered_patterns.
     detect_factory_phase q \<noteq> None \<and> \<not> any_in factory_keywords (lower q)"
  by code_simp

section \<open>Facts about the announcement decision\<close>

text \<open>Items whose body falls through are skipped by the loop.\<close>

lemma scan_todos_skip:
  "\<forall>u \<in> set pre. todo_decision u = Inr None \<Longrightarrow> scan_todos (pre @ rest) = scan_todos rest"
  by (induction pre) simp_all

text \<open>The loop's result is that of the first item whose body does not fall through.\<close>

lemma scan_todos_find:
  "scan_todos ts =
     (case find (\<lambda>t. todo_decision t \<noteq> Inr None) ts of
        None \<Rightarrow> Inr (False, None, None)
      | Some t \<Rightarrow>
          (case todo_decision t of
             Inl e \<Rightarrow> Inl e
           | Inr None \<Rightarrow> Inr (False, None, None)
           | Inr (Some (phase, is_completed)) \<Rightarrow> Inr (True, Some phase, Some is_completed)))"
  by (induction ts) (auto split: sum.splits option.splits)

text \<open>The body of the loop, by the conditions on the item.\<close>

lemma todo_decision_skipped:
  assumes "item_fields todo c s" and "skipped_item c s"
  shows "todo_decision todo = Inr None"
proof (cases "detect_factory_phase (lower c)")
  case None
  with assms(1) show ?thesis
    by (simp add: todo_decision_def item_fields_def Let_def)
next
  case (Some p)
  then have "1 \<le> p \<and> p \<le> 5" by (rule detect_factory_phase_range)
  with Some assms show ?thesis
    by (auto simp: todo_decision_def item_fields_def skipped_item_def
        announced_combination_def Let_def)
qed

lemma todo_decision_announced:
  assumes "item_fields todo c s" and "announced_item c s p"
  shows "todo_decision todo = Inr (Some (p, p = 5))"
proof -
  from assms(2) have "1 \<le> p \<and> p \<le> 5"
    by (auto simp: announced_item_def dest: detect_factory_phase_range)
  with assms show ?thesis
    by (auto simp: todo_decision_def item_fields_def announced_item_def
        announced_combination_def Let_def)
qed

text \<open>Every item is one or the other.\<close>

lemma skipped_or_announced: "skipped_item c s \<or> (\<exists>p. announced_item c s p)"
  by (cases "detect_factory_phase (lower c)") (auto simp: skipped_item_def announced_item_def)

lemma not_skipped_and_announced: "announced_item c s p \<Longrightarrow> \<not> skipped_item c s"
  by (auto simp: skipped_item_def announced_item_def)

lemma should_announce_list:
  assumes "py_get input_data ''tool_name'' (JStr []) = Inr (JStr ''TodoWrite'')"
    and "py_get input_data ''tool_input'' (JObj []) = Inr tool_input"
    and "py_get tool_input ''todos'' (JArr []) = Inr (JArr ts)"
  shows "should_announce_factory_progress input_data = scan_todos ts"
  using assms by (cases ts) (simp_all add: should_announce_factory_progress_def)

lemma todo_event_tool_name:
  "py_get (todo_event ts) ''tool_name'' (JStr []) = Inr (JStr ''TodoWrite'')"
  by (simp add: todo_event_def)

lemma todo_event_tool_input:
  "py_get (todo_event ts) ''tool_input'' (JObj []) = Inr (JObj [(''todos'', JArr ts)])"
  by (simp add: todo_event_def)

lemma todos_lookup:
  "py_get (JObj [(''todos'', JArr ts)]) ''todos'' (JArr []) = Inr (JArr ts)"
  by simp

section \<open>Facts about the message pools\<close>

lemma choice_in: "xs \<noteq> [] \<Longrightarrow> choice xs k \<in> set xs"
  by (simp add: choice_def)

lemma phase_cases:
  "(phase::int) \<in> {1..5} \<Longrightarrow> phase = 1 \<or> phase = 2 \<or> phase = 3 \<or> phase = 4 \<or> phase = 5"
  by auto

lemma phase_messages_lookup:
  "phase \<in> {1..5} \<Longrightarrow>
     map_of (phase_messages n) phase = Some (generic_messages phase, personal_messages phase n)"
  by (drule phase_cases, elim disjE)
    (simp_all add: generic_messages_def personal_messages_def phase_messages_def)

lemma phase_messages_unknown: "phase \<notin> {1..5} \<Longrightarrow> map_of (phase_messages n) phase = None"
  by (auto simp: phase_messages_def)

lemma phase_pool_sizes:
  "phase \<in> {1..5} \<Longrightarrow>
     length (generic_messages phase) = 4 \<and> length (personal_messages phase n) = 4"
  by (drule phase_cases, elim disjE)
    (simp_all add: generic_messages_def personal_messages_def phase_messages_def)

lemma completion_pool_sizes:
  "length completion_messages = 5 \<and> length (personal_completion_messages n) = 5"
  by (simp add: completion_messages_def personal_completion_messages_def)

text \<open>
  Within a phase the two pools share no message for any name: the personal messages end
  with an exclamation mark, the generic ones do not. The completion pools differ in their
  first two characters.
\<close>

lemma personal_ends_with_bang:
  "phase \<in> {1..5} \<Longrightarrow> m \<in> set (personal_messages phase n) \<Longrightarrow> last m = CHR ''!''"
  by (drule phase_cases, elim disjE)
    (auto simp: personal_messages_def phase_messages_def)

lemma generic_ends_without_bang:
  "phase \<in> {1..5} \<Longrightarrow> m \<in> set (generic_messages phase) \<Longrightarrow> last m \<noteq> CHR ''!''"
  by (drule phase_cases, elim disjE)
    (auto simp: generic_messages_def phase_messages_def)

lemma phase_pools_disjoint:
  "phase \<in> {1..5} \<Longrightarrow> set (generic_messages phase) \<inter> set (personal_messages phase n) = {}"
  using personal_ends_with_bang generic_ends_without_bang by blast

lemma completion_pools_disjoint:
  "set completion_messages \<inter> set (personal_completion_messages n) = {}"
  by (auto simp: completion_messages_def personal_completion_messages_def)

section \<open>Facts about the voice flag\<close>


lemma py_get_Inl: "py_get x k dflt = Inl e \<Longrightarrow> e = AttributeError"
  by (cases x) auto

lemma read_voice_flag_errors: "read_voice_flag f = Inl e \<Longrightarrow> is_Exception e"
  by (cases f)
    (auto simp: read_voice_flag_def read_json_def is_Exception_def
      split: sum.splits dest!: py_get_Inl)


lemma notification_voice_flag_errors: "notification_voice_flag f = Inl e \<Longrightarrow> is_Exception e"
  by (cases f)
    (auto simp: notification_voice_flag_def Path_exists_def is_Exception_def
      dest: read_voice_flag_errors)


section \<open>Facts about the voice control utility\<close>

lemma load_factory_config_cases:
  "load_factory_config w =
     (case config_file w of
        Inaccessible \<Rightarrow> (Inl OSError, w)
      | Missing \<Rightarrow> (Inl (SystemExit 1), print ConfigNotFound w)
      | Unreadable \<Rightarrow> (Inl (SystemExit 1), print ReadFailed w)
      | Malformed \<Rightarrow> (Inl (SystemExit 1), print InvalidJSON w)
      | Parsed config \<Rightarrow> (Inr config, w))"
  by (cases "config_file w")
    (simp_all add: load_factory_config_def Path_exists_def read_json_def is_Exception_def)


lemma load_factory_config_loads:
  "config_file w = Parsed config \<Longrightarrow> load_factory_config w = (Inr config, w)"
  by (simp add: load_factory_config_cases)

lemma load_factory_config_Inr:
  "load_factory_config w = (Inr config, w1) \<Longrightarrow> config_file w = Parsed config \<and> w1 = w"
  by (cases "config_file w") (simp_all add: load_factory_config_cases)








lemma py_setitem_Inr:
  "py_setitem x k v = Inr y \<Longrightarrow> \<exists>d. x = JObj d \<and> y = JObj (AList.update k v d)"
  by (cases x) auto

text \<open>What a call of \<open>set_voice_state\<close> that returns has done.\<close>

lemma set_voice_state_returns:
  assumes "set_voice_state b w = (Inr u, w')"
  shows "\<exists>cfg. config_file w = Parsed (JObj cfg)
           \<and> w' = print (if b then VoiceEnabled else VoiceDisabled)
                    (w\<lparr>config_file := Parsed (JObj (AList.update ''voice'' (voice_settings b) cfg))\<rparr>)"
proof -
  from assms obtain config where load: "load_factory_config w = (Inr config, w)"
    and parsed: "config_file w = Parsed config"
    by (cases "config_file w")
      (auto simp: set_voice_state_def load_factory_config_cases split: sum.splits prod.splits)
  from assms load obtain config' where
    set: "py_setitem config ''voice'' (voice_settings b) = Inr config'"
    by (auto simp: set_voice_state_def split: sum.splits prod.splits)
  then obtain cfg where cfg: "config = JObj cfg"
    "config' = JObj (AList.update ''voice'' (voice_settings b) cfg)"
    using py_setitem_Inr by blast
  from assms load set have "on_write w = WriteOk"
    by (cases "on_write w")
      (auto simp: set_voice_state_def save_factory_config_def split: sum.splits prod.splits)
  with assms load set cfg parsed show ?thesis
    by (auto simp: set_voice_state_def save_factory_config_def)
qed

lemma set_voice_state_exit: "set_voice_state b w = (Inl (SystemExit c), w') \<Longrightarrow> c = 1"
  by (cases "config_file w"; cases "on_write w")
    (auto simp: set_voice_state_def load_factory_config_cases save_factory_config_def
      split: sum.splits prod.splits dest!: py_setitem_Inr
      elim!: py_setitem.elims)

lemma config_file_print: "config_file (print m w) = config_file w"
  by (simp add: print_def)

lemma toggle_voice_state_returns:
  assumes "toggle_voice_state w = (Inr u, w')"
  shows "\<exists>cfg b. config_file w = Parsed (JObj cfg)
           \<and> config_file w' = Parsed (JObj (AList.update ''voice'' (voice_settings b) cfg))"
proof -
  from assms obtain config where load: "load_factory_config w = (Inr config, w)"
    by (cases "config_file w")
      (auto simp: toggle_voice_state_def load_factory_config_cases split: sum.splits prod.splits)
  from assms load obtain b u' w2 where "set_voice_state b w = (Inr u', w2)"
    and w': "w' = print (ToggleHint b) w2"
    by (auto simp: toggle_voice_state_def Let_def split: sum.splits prod.splits)
  from set_voice_state_returns [OF this(1)] w' show ?thesis
    by (auto simp: config_file_print)
qed

lemma toggle_voice_state_exit: "toggle_voice_state w = (Inl (SystemExit c), w') \<Longrightarrow> c = 1"
  by (cases "config_file w")
    (auto simp: toggle_voice_state_def load_factory_config_cases Let_def
      split: sum.splits prod.splits dest: set_voice_state_exit py_get_Inl)

text \<open>A run of \<open>main\<close> that is not the status report and ends with status 0 has written the file.\<close>

lemma main_success:
  assumes "main a w = (0, w')" and "\<not> status_selected a"
  shows "\<exists>cfg b. config_file w = Parsed (JObj cfg)
           \<and> config_file w' = Parsed (JObj (AList.update ''voice'' (voice_settings b) cfg))"
proof -
  define r where "r =
    (if enable a then set_voice_state True w
     else if disable a then set_voice_state False w
     else toggle_voice_state w)"
  from assms(2) have main: "main a w =
      (case r of
         (Inr _, w') \<Rightarrow> (0, w')
       | (Inl (SystemExit code), w') \<Rightarrow> (code, w')
       | (Inl e, w') \<Rightarrow> (1, print UnexpectedError w'))"
    by (auto simp: main_def r_def status_selected_def)
  have exit: "c = 1" if "r = (Inl (SystemExit c), w2)" for c w2
    using that set_voice_state_exit toggle_voice_state_exit
    by (auto simp: r_def split: if_splits)
  from assms(1) main exit obtain u where r: "r = (Inr u, w')"
    by (cases r; cases "fst r") (auto split: exc.splits)
  then show ?thesis
    using set_voice_state_returns toggle_voice_state_returns
    by (auto simp: r_def config_file_print split: if_splits dest!: set_voice_state_returns)
qed

lemma voice_invariant_settings: "voice_invariant (voice_settings b)"
  by (simp add: voice_invariant_def voice_settings_def)

lemma main_disable_example:
  "main (flags False True False False) (world_with (Parsed (JObj example_config)))
     = (0, \<lparr>config_file = Parsed (JObj
              [(''factory'', JObj [(''version'', JStr ''1.0'')]),
               (''voice'', voice_settings False),
               (''projects'', JArr [JStr ''demo''])]),
            on_write = WriteOk, stdout = [VoiceDisabled]\<rparr>)"
  by (simp add: main_def flags_def world_with_def set_voice_state_def load_factory_config_cases
      save_factory_config_def print_def example_config_def)

lemma main_toggle_example:
  "main (flags False False False False) (world_with (Parsed (JObj example_config)))
     = (0, \<lparr>config_file = Parsed (JObj
              [(''factory'', JObj [(''version'', JStr ''1.0'')]),
               (''voice'', voice_settings False),
               (''projects'', JArr [JStr ''demo''])]),
            on_write = WriteOk, stdout = [VoiceDisabled, ToggleHint False]\<rparr>)"
  by (simp add: main_def flags_def world_with_def toggle_voice_state_def set_voice_state_def
      load_factory_config_cases save_factory_config_def print_def example_config_def)

section \<open>Facts about the fallback cascade\<close>

lemma try_scripts_prefix: "prefix (try_scripts r cs) cs"
  by (induction cs) (auto split: run_result.splits)

lemma try_scripts_all_fail:
  "\<forall>s \<in> set cs. r s = TimeoutExpired \<or> r s = CalledProcessError \<Longrightarrow> try_scripts r cs = cs"
  by (induction cs) auto

lemma try_scripts_first_success:
  "\<forall>s \<in> set pre. r s = TimeoutExpired \<or> r s = CalledProcessError \<Longrightarrow> r s = Success \<Longrightarrow>
     try_scripts r (pre @ s # post) = pre @ [s]"
  by (induction pre) auto

lemma fallback_scripts_set:
  "set (fallback_scripts e) =
     {s. (s = ElevenLabs \<and> elevenlabs_exists e) \<or> (s = OpenAI \<and> openai_exists e)
         \<or> (s = Pyttsx3 \<and> pyttsx3_exists e)}"
  by (auto simp: fallback_scripts_def)

lemma fallback_scripts_order: "subseq (fallback_scripts e) [ElevenLabs, OpenAI, Pyttsx3]"
  by (simp add: fallback_scripts_def)

lemma pool_messages_nonempty:
  "phase \<in> {1..5} \<Longrightarrow>
     [] \<notin> set (generic_messages phase) \<and> [] \<notin> set (personal_messages phase n)
     \<and> [] \<notin> set completion_messages \<and> [] \<notin> set (personal_completion_messages n)"
  by (drule phase_cases, elim disjE)
    (simp_all add: generic_messages_def personal_messages_def phase_messages_def
      completion_messages_def personal_completion_messages_def)

lemma get_factory_message_nonempty:
  assumes "phase \<in> {1..5}"
  shows "\<exists>m. get_factory_message phase name c u k = Some m \<and> m \<noteq> []"
proof -
  let ?n = "format_name name"
  have g: "generic_messages phase \<noteq> []" and p: "personal_messages phase ?n \<noteq> []"
    using phase_pool_sizes [OF assms, of ?n] by auto
  have cm: "completion_messages \<noteq> []" and pc: "personal_completion_messages ?n \<noteq> []"
    using completion_pool_sizes [of ?n] by auto
  from choice_in [OF g, of k] choice_in [OF p, of k] choice_in [OF cm, of k]
    choice_in [OF pc, of k] pool_messages_nonempty [OF assms, of ?n]
  show ?thesis
    by (auto simp: get_factory_message_def phase_messages_lookup [OF assms])
qed

text \<open>
  Once the hook is past \<open>get_tts_script_path\<close>, it runs the cascade over every script
  that exists, whatever the keys.
\<close>

lemma announce_cascade:
  assumes "is_voice_enabled (voice_config e) = Inr v" and "truthy v"
    and "stdin_json e = Some input_data"
    and "should_announce_factory_progress input_data = Inr (True, Some phase, c)"
    and "phase \<in> {1..5}"
    and "get_tts_script_path e = Some s"
  shows "map fst (announce_factory_progress e) = try_scripts (run e) (fallback_scripts e)"
proof -
  let ?name = "Some (strip (case ENGINEER_NAME e of None \<Rightarrow> [] | Some s \<Rightarrow> s))"
  from get_factory_message_nonempty [OF assms(5)] obtain m where
    "get_factory_message phase ?name (c = Some True) (random_u e) (random_k e) = Some m"
    and "m \<noteq> []"
    by blast
  with assms show ?thesis
    by (simp add: announce_factory_progress_def Let_def comp_def)
qed

section \<open>The claims\<close>

text \<open>
  C1: the cascade is to run every script that exists, whatever the API keys. Before it
  builds the cascade the hook asks \<open>get_tts_script_path\<close>, which does look at the keys,
  and returns when that finds nothing. With no key set, the two cloud scripts present and
  the local one absent, a phase 3 item in progress is to be announced and the cascade
  would hold two scripts, yet no script is run.
\<close>

theorem announce_skips_existing_scripts:
  "ELEVENLABS_API_KEY cloud_scripts_only = None
   \<and> OPENAI_API_KEY cloud_scripts_only = None
   \<and> is_voice_enabled (voice_config cloud_scripts_only) = Inr (JBool True)
   \<and> stdin_json cloud_scripts_only
       = Some (todo_event [todo_item (brain_emoji @ '' Phase 3: context assembly'')
                             ''in_progress''])
   \<and> should_announce_factory_progress
        (todo_event [todo_item (brain_emoji @ '' Phase 3: context assembly'') ''in_progress''])
       = Inr (True, Some 3, Some False)
   \<and> fallback_scripts cloud_scripts_only = [ElevenLabs, OpenAI]
   \<and> get_tts_script_path cloud_scripts_only = None
   \<and> announce_factory_progress cloud_scripts_only = []"
proof -
  have sa: "should_announce_factory_progress
        (todo_event [todo_item (brain_emoji @ '' Phase 3: context assembly'') ''in_progress''])
       = Inr (True, Some 3, Some False)"
    by code_simp
  have ve: "is_voice_enabled Missing = Inr (JBool True)"
    by (simp add: is_voice_enabled_def voice_flag_def os_path_exists_def)
  have sel: "get_tts_script_path cloud_scripts_only = None"
    by (simp add: get_tts_script_path_def cloud_scripts_only_def key_set_def)
  have "announce_factory_progress cloud_scripts_only = []"
    using sa ve sel
    by (simp add: announce_factory_progress_def cloud_scripts_only_def)
  with sa ve sel show ?thesis
    by (simp add: cloud_scripts_only_def fallback_scripts_def)
qed




text \<open>
  C3, as the specification has it: a text whose lower-cased form contains \<open>phase 3\<close>
  and no pattern of phases 1 and 2 is classified as phase 3. The source's pattern is the
  brain emoji, a blank and \<open>phase 3\<close>, so the bare text \<open>phase 3\<close> has no phase at all.
\<close>

theorem detect_bare_phase_3_none:
  "str_in ''phase 3'' (lower ''phase 3'')
   \<and> \<not> any_in (patterns_of 1 @ patterns_of 2) (lower ''phase 3'')
   \<and> detect_factory_phase ''phase 3'' = None"
  by code_simp

text \<open>
  C3, amended: for each phase \<open>k\<close> from 1 to 5, a text whose lower-cased form contains the
  marker of phase \<open>k\<close> with its emoji (the first pattern of the phase) and contains no
  pattern of the phases before \<open>k\<close> is classified as phase \<open>k\<close>.
\<close>

theorem detect_phase_marker:
  assumes "k \<in> {1..5}"
    and "str_in (phase_marker k) (lower text)"
    and "\<not> any_in (patterns_before k) (lower text)"
  shows "detect_factory_phase text = Some k"
proof -
  from assms(1) have marker: "phase_marker k \<in> set (patterns_of k)" "phase_marker k \<noteq> []"
    using phase_marker_in_patterns by simp_all
  from marker(2) assms(2) have "lower text \<noteq> []"
    by auto
  then have nonempty: "text \<noteq> []"
    by (simp add: lower_eq_Nil)
  from marker(1) assms(2) have hit: "any_in (patterns_of k) (lower text)"
    by (auto simp: any_in_iff)
  have dist: "distinct (map fst phase_patterns)"
    unfolding phase_patterns_keys by simp
  from assms(3)
  have "first_phase phase_patterns (lower text) = Some k"
    unfolding patterns_before_def
    by (rule first_phase_hit [OF phase_patterns_entry [OF assms(1)] dist hit])
  with nonempty show ?thesis
    by (simp add: detect_factory_phase_def)
qed

theorem detect_phase_marker_witness:
  "(3::int) \<in> {1..5}
   \<and> str_in (phase_marker 3) (lower (brain_emoji @ '' Phase 3: Research''))
   \<and> \<not> any_in (patterns_before 3) (lower (brain_emoji @ '' Phase 3: Research''))
   \<and> detect_factory_phase (brain_emoji @ '' Phase 3: Research'') = Some 3"
proof -
  have h1: "(3::int) \<in> {1..5}" by simp
  have h2: "str_in (phase_marker 3) (lower (brain_emoji @ '' Phase 3: Research''))"
    by code_simp
  have h3: "\<not> any_in (patterns_before 3) (lower (brain_emoji @ '' Phase 3: Research''))"
    by code_simp
  show ?thesis
    using h1 h2 h3 detect_phase_marker [OF h1 h2 h3] by simp
qed

text \<open>
  C4: a TodoWrite event whose todo list has one item, factory-relevant (a keyword of
  \<open>factory_keywords\<close> occurs in the lower-cased content) and with detected phase \<open>p\<close>
  and status \<open>s\<close>, is announced if and only if \<open>p = 5\<close> and \<open>s\<close> is \<open>completed\<close>, or
  \<open>p\<close> is one of 1 to 4 and \<open>s\<close> is \<open>in_progress\<close>; the announcement carries the phase and
  the completion flag, and every other combination gives \<open>(False, None, None)\<close>.
\<close>

theorem should_announce_single_item:
  assumes "py_get input_data ''tool_name'' (JStr []) = Inr (JStr ''TodoWrite'')"
    and "py_get input_data ''tool_input'' (JObj []) = Inr tool_input"
    and "py_get tool_input ''todos'' (JArr []) = Inr (JArr [todo])"
    and "py_get todo ''content'' (JStr []) = Inr (JStr c)"
    and "py_get todo ''status'' (JStr []) = Inr s"
    and "any_in factory_keywords (lower c)"
    and "detect_factory_phase (lower c) = Some p"
  shows "should_announce_factory_progress input_data =
           (if (p = 5 \<and> s = JStr ''completed'') \<or> (p \<in> {1..4} \<and> s = JStr ''in_progress'')
            then Inr (True, Some p, Some (p = 5))
            else Inr (False, None, None))"
proof -
  from assms(7) have range: "1 \<le> p \<and> p \<le> 5"
    by (rule detect_factory_phase_range)
  have "should_announce_factory_progress input_data = scan_todos [todo]"
    using assms(1-3) by (rule should_announce_list)
  moreover have "todo_decision todo =
      (if (p = 5 \<and> s = JStr ''completed'') \<or> (p \<in> {1..4} \<and> s = JStr ''in_progress'')
       then Inr (Some (p, p = 5)) else Inr None)"
    using assms(4-7) range by (auto simp: todo_decision_def Let_def)
  ultimately show ?thesis by simp
qed

theorem should_announce_single_item_witness:
  "py_get (todo_event [todo_item (brain_emoji @ '' Phase 3: research'') ''in_progress''])
      ''tool_name'' (JStr []) = Inr (JStr ''TodoWrite'')
   \<and> py_get (todo_event [todo_item (brain_emoji @ '' Phase 3: research'') ''in_progress''])
      ''tool_input'' (JObj [])
      = Inr (JObj [(''todos'',
               JArr [todo_item (brain_emoji @ '' Phase 3: research'') ''in_progress''])])
   \<and> py_get (JObj [(''todos'',
               JArr [todo_item (brain_emoji @ '' Phase 3: research'') ''in_progress''])])
      ''todos'' (JArr [])
      = Inr (JArr [todo_item (brain_emoji @ '' Phase 3: research'') ''in_progress''])
   \<and> py_get (todo_item (brain_emoji @ '' Phase 3: research'') ''in_progress'')
      ''content'' (JStr []) = Inr (JStr (brain_emoji @ '' Phase 3: research''))
   \<and> py_get (todo_item (brain_emoji @ '' Phase 3: research'') ''in_progress'')
      ''status'' (JStr []) = Inr (JStr ''in_progress'')
   \<and> any_in factory_keywords (lower (brain_emoji @ '' Phase 3: research''))
   \<and> detect_factory_phase (lower (brain_emoji @ '' Phase 3: research'')) = Some 3
   \<and> should_announce_factory_progress
        (todo_event [todo_item (brain_emoji @ '' Phase 3: research'') ''in_progress''])
      = Inr (True, Some 3, Some False)"
proof -
  let ?c = "brain_emoji @ '' Phase 3: research''"
  let ?t = "todo_item ?c ''in_progress''"
  let ?ti = "JObj [(''todos'', JArr [?t])]"
  have h1: "py_get (todo_event [?t]) ''tool_name'' (JStr []) = Inr (JStr ''TodoWrite'')"
    by (simp add: todo_event_def)
  have h2: "py_get (todo_event [?t]) ''tool_input'' (JObj []) = Inr ?ti"
    by (simp add: todo_event_def)
  have h3: "py_get ?ti ''todos'' (JArr []) = Inr (JArr [?t])"
    by simp
  have h4: "py_get ?t ''content'' (JStr []) = Inr (JStr ?c)"
    by (simp add: todo_item_def)
  have h5: "py_get ?t ''status'' (JStr []) = Inr (JStr ''in_progress'')"
    by (simp add: todo_item_def)
  have h6: "any_in factory_keywords (lower ?c)" by code_simp
  have h7: "detect_factory_phase (lower ?c) = Some 3" by code_simp
  show ?thesis
    using h1 h2 h3 h4 h5 h6 h7 should_announce_single_item [OF h1 h2 h3 h4 h5 h6 h7]
    by simp
qed

text \<open>
  C5, as the specification has it: when the first factory-relevant item with a detected
  phase has a combination that is not announced, nothing is announced whatever follows.
  The loop has no exit on such an item: here a completed phase 3 item is passed over and
  the phase 4 item after it is announced.
\<close>

theorem later_item_announced:
  "todo_decision (todo_item (brain_emoji @ '' Phase 3: research'') ''completed'') = Inr None
   \<and> any_in factory_keywords (lower (brain_emoji @ '' Phase 3: research''))
   \<and> detect_factory_phase (lower (brain_emoji @ '' Phase 3: research'')) = Some 3
   \<and> should_announce_factory_progress
        (todo_event [todo_item (brain_emoji @ '' Phase 3: research'') ''completed'',
                     todo_item (memo_emoji @ '' Phase 4: files'') ''in_progress''])
      = Inr (True, Some 4, Some False)"
  by code_simp

text \<open>
  C5, amended: the decision is that of the first item, in list order, that is
  factory-relevant, has a detected phase and has an announced combination of phase and
  status: it is announced with its phase, and with the completion flag set for phase 5.
  Items before it that are not factory-relevant, have no phase, or have a combination
  that is not announced are passed over; nothing is announced when every item is passed
  over.
\<close>

theorem should_announce_first_announceable:
  assumes "py_get input_data ''tool_name'' (JStr []) = Inr (JStr ''TodoWrite'')"
    and "py_get input_data ''tool_input'' (JObj []) = Inr tool_input"
    and "py_get tool_input ''todos'' (JArr []) = Inr (JArr ts)"
  shows "((\<forall>u \<in> set ts. \<exists>c s. item_fields u c s \<and> skipped_item c s) \<longrightarrow>
            should_announce_factory_progress input_data = Inr (False, None, None))
       \<and> (\<forall>pre t post c s p.
            ts = pre @ t # post
              \<and> (\<forall>u \<in> set pre. \<exists>c' s'. item_fields u c' s' \<and> skipped_item c' s')
              \<and> item_fields t c s \<and> announced_item c s p \<longrightarrow>
            should_announce_factory_progress input_data = Inr (True, Some p, Some (p = 5)))"
proof -
  have eq: "should_announce_factory_progress input_data = scan_todos ts"
    using assms by (rule should_announce_list)
  have skip: "\<forall>u \<in> set us. todo_decision u = Inr None"
    if "\<forall>u \<in> set us. \<exists>c s. item_fields u c s \<and> skipped_item c s" for us
    using that todo_decision_skipped by blast
  show ?thesis
  proof (intro conjI allI impI)
    assume "\<forall>u \<in> set ts. \<exists>c s. item_fields u c s \<and> skipped_item c s"
    from scan_todos_skip [OF skip [OF this], of "[]"] eq
    show "should_announce_factory_progress input_data = Inr (False, None, None)" by simp
  next
    fix pre t post c s p
    assume h: "ts = pre @ t # post
      \<and> (\<forall>u \<in> set pre. \<exists>c' s'. item_fields u c' s' \<and> skipped_item c' s')
      \<and> item_fields t c s \<and> announced_item c s p"
    then have "scan_todos ts = scan_todos (t # post)"
      using scan_todos_skip [OF skip, of pre "t # post"] by simp
    moreover from h have "todo_decision t = Inr (Some (p, p = 5))"
      using todo_decision_announced by blast
    ultimately show "should_announce_factory_progress input_data = Inr (True, Some p, Some (p = 5))"
      using eq by simp
  qed
qed

theorem should_announce_first_announceable_witness:
  "py_get (todo_event [todo_item (brain_emoji @ '' Phase 3: research'') ''completed'',
                       todo_item ''context assembly'' ''in_progress'',
                       todo_item (memo_emoji @ '' Phase 4: files'') ''in_progress''])
      ''tool_name'' (JStr []) = Inr (JStr ''TodoWrite'')
   \<and> item_fields (todo_item (brain_emoji @ '' Phase 3: research'') ''completed'')
        (brain_emoji @ '' Phase 3: research'') (JStr ''completed'')
   \<and> skipped_item (brain_emoji @ '' Phase 3: research'') (JStr ''completed'')
   \<and> item_fields (todo_item ''context assembly'' ''in_progress'')
        ''context assembly'' (JStr ''in_progress'')
   \<and> skipped_item ''context assembly'' (JStr ''in_progress'')
   \<and> item_fields (todo_item (memo_emoji @ '' Phase 4: files'') ''in_progress'')
        (memo_emoji @ '' Phase 4: files'') (JStr ''in_progress'')
   \<and> announced_item (memo_emoji @ '' Phase 4: files'') (JStr ''in_progress'') 4
   \<and> should_announce_factory_progress
        (todo_event [todo_item (brain_emoji @ '' Phase 3: research'') ''completed'',
                     todo_item ''context assembly'' ''in_progress'',
                     todo_item (memo_emoji @ '' Phase 4: files'') ''in_progress''])
      = Inr (True, Some 4, Some False)
   \<and> should_announce_factory_progress
        (todo_event [todo_item (brain_emoji @ '' Phase 3: research'') ''completed'',
                     todo_item ''context assembly'' ''in_progress''])
      = Inr (False, None, None)"
proof -
  let ?c1 = "brain_emoji @ '' Phase 3: research''"
  let ?c2 = "memo_emoji @ '' Phase 4: files''"
  let ?t1 = "todo_item ?c1 ''completed''"
  let ?t0 = "todo_item ''context assembly'' ''in_progress''"
  let ?t2 = "todo_item ?c2 ''in_progress''"
  note n = todo_event_tool_name and i = todo_event_tool_input and l = todos_lookup
  have f: "item_fields (todo_item c st) c (JStr st)" for c st
    by (simp add: item_fields_def todo_item_def)
  have s1: "skipped_item ?c1 (JStr ''completed'')" by code_simp
  have s0: "skipped_item ''context assembly'' (JStr ''in_progress'')" by code_simp
  have a2: "announced_item ?c2 (JStr ''in_progress'') 4" by code_simp
  have pre: "\<forall>u \<in> set [?t1, ?t0]. \<exists>c s. item_fields u c s \<and> skipped_item c s"
    using f s1 s0 by auto
  have three: "should_announce_factory_progress (todo_event [?t1, ?t0, ?t2])
      = Inr (True, Some 4, Some False)"
    using should_announce_first_announceable [OF n i l, of "[?t1, ?t0, ?t2]", THEN conjunct2,
        rule_format, of "[?t1, ?t0]" ?t2 "[]" ?c2 "JStr ''in_progress''" 4] pre f a2
    by simp
  have two: "should_announce_factory_progress (todo_event [?t1, ?t0]) = Inr (False, None, None)"
    using should_announce_first_announceable [OF n i l, of "[?t1, ?t0]", THEN conjunct1] pre
    by simp
  show ?thesis
    using n [of "[?t1, ?t0, ?t2]"] f s1 s0 a2 three two
    by simp
qed

text \<open>
  C6, as the specification has it: a content the classifier gives a phase contains a
  keyword of the broader set. The phrase \<open>context assembly\<close> is phase 3 and contains
  none.
\<close>

theorem phase_3_phrase_not_factory_relevant:
  "detect_factory_phase ''context assembly'' = Some 3
   \<and> \<not> any_in factory_keywords (lower ''context assembly'')"
  by code_simp

text \<open>
  C6, amended: a content the classifier gives a phase contains a keyword of the broader
  set provided its lower-cased form contains none of the twelve trigger phrases in which
  no keyword occurs (\<open>uncovered_patterns\<close>); each of those twelve phrases, taken as a
  content, has a phase and no keyword, so the second check does filter.
\<close>

theorem keyword_check_partly_implied:
  "(detect_factory_phase c \<noteq> None \<longrightarrow> \<not> any_in uncovered_patterns (lower c) \<longrightarrow>
      any_in factory_keywords (lower c))
   \<and> (q \<in> set uncovered_patterns \<longrightarrow>
      detect_factory_phase q \<noteq> None \<and> \<not> any_in factory_keywords (lower q))"
proof (intro conjI impI)
  assume cls: "detect_factory_phase c \<noteq> None"
    and unc: "\<not> any_in uncovered_patterns (lower c)"
  from cls obtain k where "first_phase phase_patterns (lower c) = Some k"
    by (auto simp: detect_factory_phase_def split: if_splits)
  then have "any_in all_patterns (lower c)"
    unfolding all_patterns_def by (rule first_phase_any)
  then obtain p where p: "p \<in> set all_patterns" "str_in p (lower c)"
    by (auto simp: any_in_iff)
  with unc have "p \<in> set covered_patterns"
    unfolding patterns_split by (auto simp: any_in_iff)
  then obtain kw where kw: "kw \<in> set factory_keywords" "str_in kw p"
    by (auto simp: covered_patterns_def any_in_iff)
  from kw(2) p(2) have "str_in kw (lower c)" by (rule str_in_trans)
  with kw(1) show "any_in factory_keywords (lower c)"
    by (auto simp: any_in_iff)
next
  assume "q \<in> set uncovered_patterns"
  with uncovered_all show "detect_factory_phase q \<noteq> None" by blast
next
  assume "q \<in> set uncovered_patterns"
  with uncovered_all show "\<not> any_in factory_keywords (lower q)" by blast
qed

theorem keyword_check_partly_implied_witness:
  "detect_factory_phase ''Kick off automated research'' \<noteq> None
   \<and> \<not> any_in uncovered_patterns (lower ''Kick off automated research'')
   \<and> any_in factory_keywords (lower ''Kick off automated research'')
   \<and> ''tasks.md'' \<in> set uncovered_patterns
   \<and> detect_factory_phase ''tasks.md'' \<noteq> None
   \<and> \<not> any_in factory_keywords (lower ''tasks.md'')"
proof -
  have h1: "detect_factory_phase ''Kick off automated research'' \<noteq> None" by code_simp
  have h2: "\<not> any_in uncovered_patterns (lower ''Kick off automated research'')" by code_simp
  have h3: "''tasks.md'' \<in> set uncovered_patterns" by code_simp
  show ?thesis
    using h1 h2 h3
      keyword_check_partly_implied [of "''Kick off automated research''" "''tasks.md''"]
    by blast
qed

text \<open>
  C7: for a phase from 1 to 5, any name and either completion state the generator returns
  a message of the pool of that combination: a completion message when \<open>is_completed\<close>
  holds and the phase is 5, a message of the phase otherwise; it is a personal message
  exactly when the name is non-empty and the draw \<open>u\<close> of \<open>random.random()\<close> is below the
  double that \<open>0.7\<close> denotes,
  and a generic one otherwise. The completion pools have 5 messages each, the pools of a
  phase 4 each. For a phase outside 1 to 5 the result is \<open>None\<close>.
\<close>

theorem get_factory_message_pool:
  "(phase \<in> {1..5} \<longrightarrow>
      (\<exists>m. get_factory_message phase name is_completed u k = Some m \<and>
         (if is_completed \<and> phase = 5
          then (if name_given name \<and> u < double_0_7
                then m \<in> set (personal_completion_messages (format_name name))
                  \<and> m \<notin> set completion_messages
                else m \<in> set completion_messages
                  \<and> m \<notin> set (personal_completion_messages (format_name name)))
          else (if name_given name \<and> u < double_0_7
                then m \<in> set (personal_messages phase (format_name name))
                  \<and> m \<notin> set (generic_messages phase)
                else m \<in> set (generic_messages phase)
                  \<and> m \<notin> set (personal_messages phase (format_name name))))))
   \<and> (phase \<notin> {1..5} \<longrightarrow> get_factory_message phase name is_completed u k = None)
   \<and> length completion_messages = 5
   \<and> length (personal_completion_messages (format_name name)) = 5
   \<and> (phase \<in> {1..5} \<longrightarrow>
        length (generic_messages phase) = 4
        \<and> length (personal_messages phase (format_name name)) = 4)"
proof (intro conjI impI)
  let ?n = "format_name name"
  assume ph: "phase \<in> {1..5}"
  have g: "generic_messages phase \<noteq> []" and p: "personal_messages phase ?n \<noteq> []"
    using phase_pool_sizes [OF ph, of ?n] by auto
  have c: "completion_messages \<noteq> []" and pc: "personal_completion_messages ?n \<noteq> []"
    using completion_pool_sizes [of ?n] by auto
  note mem = choice_in [OF g, of k] choice_in [OF p, of k] choice_in [OF c, of k]
    choice_in [OF pc, of k]
  note disj = phase_pools_disjoint [OF ph, of ?n] completion_pools_disjoint [of ?n]
  show "\<exists>m. get_factory_message phase name is_completed u k = Some m \<and>
         (if is_completed \<and> phase = 5
          then (if name_given name \<and> u < double_0_7
                then m \<in> set (personal_completion_messages ?n)
                  \<and> m \<notin> set completion_messages
                else m \<in> set completion_messages
                  \<and> m \<notin> set (personal_completion_messages ?n))
          else (if name_given name \<and> u < double_0_7
                then m \<in> set (personal_messages phase ?n)
                  \<and> m \<notin> set (generic_messages phase)
                else m \<in> set (generic_messages phase)
                  \<and> m \<notin> set (personal_messages phase ?n)))"
    using mem disj
    by (auto simp: get_factory_message_def phase_messages_lookup [OF ph])
next
  assume "phase \<notin> {1..5}"
  then show "get_factory_message phase name is_completed u k = None"
    by (auto simp: get_factory_message_def phase_messages_unknown)
next
  show "length completion_messages = 5"
    using completion_pool_sizes by simp
next
  show "length (personal_completion_messages (format_name name)) = 5"
    using completion_pool_sizes by simp
next
  assume "phase \<in> {1..5}"
  then show "length (generic_messages phase) = 4"
    using phase_pool_sizes by simp
next
  assume "phase \<in> {1..5}"
  then show "length (personal_messages phase (format_name name)) = 4"
    using phase_pool_sizes by simp
qed

theorem get_factory_message_pool_witness:
  "(3::int) \<in> {1..5}
   \<and> get_factory_message 3 (Some ''Ada'') False 0.5 6
       = Some ''Ada, context assembly engaged - your vision is taking shape!''
   \<and> ''Ada, context assembly engaged - your vision is taking shape!''
       \<in> set (personal_messages 3 ''Ada'')
   \<and> get_factory_message 3 (Some ''Ada'') False double_0_7 6
       = Some ''Pattern matching active - identifying optimal solutions''
   \<and> ''Pattern matching active - identifying optimal solutions'' \<in> set (generic_messages 3)
   \<and> get_factory_message 5 (Some []) True 0.5 6
       = Some ''Quantum context assembly successful! Speed enhances understanding - ready to build!''
   \<and> (7::int) \<notin> {1..5}
   \<and> get_factory_message 7 (Some ''Ada'') False 0.5 6 = None"
  using get_factory_message_pool [of 3 "Some ''Ada''" False "0.5" 6]
    get_factory_message_pool [of 3 "Some ''Ada''" False double_0_7 6]
    get_factory_message_pool [of 7 "Some ''Ada''" False "0.5" 6]
    get_factory_message_pool [of 5 "Some []" True "0.5" 6]
  by (simp add: get_factory_message_def phase_messages_def personal_messages_def
      generic_messages_def completion_messages_def name_given_def format_name_def choice_def
      double_0_7_def)

text \<open>
  C8: after an enable, disable or toggle run that ends with status 0, the file holds a
  JSON object whose \<open>voice\<close> entry satisfies the invariant: the five flags are one
  boolean, and \<open>nameUsageRate\<close> is 0.7 when it is true and 0.0 when it is false.
\<close>

theorem main_keeps_voice_invariant:
  assumes "main a w = (0, w')" and "\<not> status_selected a"
  shows "\<exists>cfg v. config_file w' = Parsed (JObj cfg) \<and> map_of cfg ''voice'' = Some v
           \<and> voice_invariant v"
proof -
  from main_success [OF assms] obtain cfg b where
    "config_file w' = Parsed (JObj (AList.update ''voice'' (voice_settings b) cfg))"
    by blast
  moreover have "map_of (AList.update ''voice'' (voice_settings b) cfg) ''voice''
      = Some (voice_settings b)"
    by (simp add: update_conv')
  ultimately show ?thesis
    using voice_invariant_settings by blast
qed

theorem main_keeps_voice_invariant_witness:
  "main (flags False False False False) (world_with (Parsed (JObj example_config)))
     = (0, \<lparr>config_file = Parsed (JObj
              [(''factory'', JObj [(''version'', JStr ''1.0'')]),
               (''voice'', voice_settings False),
               (''projects'', JArr [JStr ''demo''])]),
            on_write = WriteOk, stdout = [VoiceDisabled, ToggleHint False]\<rparr>)
   \<and> \<not> status_selected (flags False False False False)
   \<and> voice_invariant (voice_settings False)"
proof -
  have h: "\<not> status_selected (flags False False False False)"
    by (simp add: status_selected_def flags_def)
  show ?thesis
    using main_toggle_example h main_keeps_voice_invariant [OF main_toggle_example h]
    by auto
qed



text \<open>
  C10: an enable, disable or toggle run that ends with status 0 has loaded a JSON object
  and written one back in which \<open>voice\<close> is the new settings dictionary, whatever the
  old entry held, every other key has the value it had, and the keys keep their order
  (\<open>voice\<close> is put last when it was absent).
\<close>

theorem main_preserves_other_keys:
  assumes "main a w = (0, w')" and "\<not> status_selected a"
  shows "\<exists>cfg cfg' b. config_file w = Parsed (JObj cfg) \<and> config_file w' = Parsed (JObj cfg')
           \<and> map_of cfg' ''voice'' = Some (voice_settings b)
           \<and> (\<forall>k. k \<noteq> ''voice'' \<longrightarrow> map_of cfg' k = map_of cfg k)
           \<and> map fst cfg' =
               (if ''voice'' \<in> set (map fst cfg) then map fst cfg else map fst cfg @ [''voice''])"
proof -
  from main_success [OF assms] obtain cfg b where
    w: "config_file w = Parsed (JObj cfg)"
    and w': "config_file w' = Parsed (JObj (AList.update ''voice'' (voice_settings b) cfg))"
    by blast
  let ?cfg' = "AList.update ''voice'' (voice_settings b) cfg"
  have "map_of ?cfg' ''voice'' = Some (voice_settings b)"
    by (simp add: update_conv')
  moreover have "\<forall>k. k \<noteq> ''voice'' \<longrightarrow> map_of ?cfg' k = map_of cfg k"
    by (simp add: update_conv')
  moreover have "map fst ?cfg' =
      (if ''voice'' \<in> set (map fst cfg) then map fst cfg else map fst cfg @ [''voice''])"
    by (rule update_keys)
  ultimately show ?thesis using w w' by blast
qed

theorem main_preserves_other_keys_witness:
  "main (flags False True False False) (world_with (Parsed (JObj example_config)))
     = (0, \<lparr>config_file = Parsed (JObj
              [(''factory'', JObj [(''version'', JStr ''1.0'')]),
               (''voice'', voice_settings False),
               (''projects'', JArr [JStr ''demo''])]),
            on_write = WriteOk, stdout = [VoiceDisabled]\<rparr>)
   \<and> \<not> status_selected (flags False True False False)
   \<and> map_of example_config ''factory'' = Some (JObj [(''version'', JStr ''1.0'')])
   \<and> map_of example_config ''projects'' = Some (JArr [JStr ''demo''])
   \<and> map_of example_config ''voice''
       = Some (JObj [(''factoryNotifications'', JBool True), (''volume'', JInt 3)])"
proof -
  have h: "\<not> status_selected (flags False True False False)"
    by (simp add: status_selected_def flags_def)
  show ?thesis
    using main_disable_example h main_preserves_other_keys [OF main_disable_example h]
    by (simp add: example_config_def)
qed

end
